theory Spec2Isabelle
  imports Complex_Main
begin

section \<open>Python values used by app.py\<close>

text \<open>
  A Python \<open>str\<close> is a sequence of Unicode code points. The labels and messages of
  app.py are Chinese, so a string is modelled as the list of its code points, written in
  hexadecimal (U+4E0A is \<open>0x4E0A\<close>).
\<close>

type_synonym pystr = "nat list"

text \<open>
  The columns of the data frame hold float64 values. A value is modelled as
  \<open>real option\<close>: \<open>None\<close> is NaN (pandas' marker of an absent value), \<open>Some x\<close> is the
  finite number \<open>x\<close>. Every ordered comparison with NaN is false and every arithmetic
  operation with a NaN operand is NaN, as IEEE 754 has it. Comparisons of present values
  are exact. The sums, quotients and differences that build the indicator columns are
  kept exact; the product is rounded as float64 rounds it (see \<open>round64\<close>), because the
  strict comparisons against the threshold are decided by that rounding. The infinities
  are not modelled.
\<close>

type_synonym pyfloat = "real option"

text \<open>
  Rounding a real number to float64, to nearest with ties to even. A float64 is an
  integer of at most 53 bits times a power of two, the power being at least
  \<open>2 ^ - 1074\<close> (below the normal range the spacing no longer shrinks). A number below
  \<open>2 ^ 52\<close> in magnitude is doubled until it is not, at most 1074 times, rounded to an
  integer and halved back; a number from \<open>2 ^ 53\<close> on is halved first. Overflow to
  infinity is not modelled.
\<close>

definition round_half_even :: "real \<Rightarrow> int" where
  "round_half_even y =
     (let f = \<lfloor>y\<rfloor>; d = y - of_int f
      in if d < 1 / 2 then f
         else if d > 1 / 2 then f + 1
         else if even f then f else f + 1)"

fun round_doubling :: "nat \<Rightarrow> real \<Rightarrow> real" where
  "round_doubling 0 x = of_int (round_half_even x)"
| "round_doubling (Suc k) x =
     (if \<bar>x\<bar> < 2 ^ 52 then round_doubling k (2 * x) / 2 else of_int (round_half_even x))"

fun round_halving :: "nat \<Rightarrow> real \<Rightarrow> real" where
  "round_halving 0 x = of_int (round_half_even x)"
| "round_halving (Suc k) x =
     (if \<bar>x\<bar> \<ge> 2 ^ 53 then 2 * round_halving k (x / 2) else of_int (round_half_even x))"

definition round64 :: "real \<Rightarrow> real" where
  "round64 x = (if \<bar>x\<bar> < 2 ^ 52 then round_doubling 1074 x else round_halving 971 x)"

text \<open>The literal \<open>0.0005\<close> of the source: the float64 nearest to that decimal.\<close>

definition float_0_0005 :: real where
  "float_0_0005 = round64 0.0005"

definition fgt :: "pyfloat \<Rightarrow> pyfloat \<Rightarrow> bool" where
  "fgt a b = (case a of None \<Rightarrow> False
              | Some x \<Rightarrow> (case b of None \<Rightarrow> False | Some y \<Rightarrow> x > y))"

definition flt :: "pyfloat \<Rightarrow> pyfloat \<Rightarrow> bool" where
  "flt a b = (case a of None \<Rightarrow> False
              | Some x \<Rightarrow> (case b of None \<Rightarrow> False | Some y \<Rightarrow> x < y))"

definition fmul :: "pyfloat \<Rightarrow> pyfloat \<Rightarrow> pyfloat" where
  "fmul a b = (case a of None \<Rightarrow> None
               | Some x \<Rightarrow> (case b of None \<Rightarrow> None | Some y \<Rightarrow> Some (round64 (x * y))))"

definition fsub :: "pyfloat \<Rightarrow> pyfloat \<Rightarrow> pyfloat" where
  "fsub a b = (case a of None \<Rightarrow> None
               | Some x \<Rightarrow> (case b of None \<Rightarrow> None | Some y \<Rightarrow> Some (x - y)))"

definition fneg :: "pyfloat \<Rightarrow> pyfloat" where
  "fneg a = (case a of None \<Rightarrow> None | Some x \<Rightarrow> Some (- x))"

text \<open>
  A \<open>datetime.date\<close> is represented by its proleptic Gregorian ordinal (what
  \<open>date.toordinal()\<close> returns): comparing two dates compares their ordinals, and
  \<open>(d2 - d1).days\<close> is the difference of the ordinals. \<open>ymd2ord\<close> computes the ordinal of
  a calendar date the way CPython's datetime module does; it is meant for valid dates
  (month 1 to 12), and is used to write concrete dates only.
\<close>

type_synonym date = int

definition is_leap :: "int \<Rightarrow> bool" where
  "is_leap y = (y mod 4 = 0 \<and> (y mod 100 \<noteq> 0 \<or> y mod 400 = 0))"

definition days_before_year :: "int \<Rightarrow> int" where
  "days_before_year year = (let y = year - 1 in y * 365 + y div 4 - y div 100 + y div 400)"

definition days_before_month :: "int \<Rightarrow> int \<Rightarrow> int" where
  "days_before_month year month =
     (if 1 \<le> month \<and> month \<le> 12
      then [0, 31, 59, 90, 120, 151, 181, 212, 243, 273, 304, 334] ! nat (month - 1)
      else 0)
     + (if month > 2 \<and> is_leap year then 1 else 0)"

definition ymd2ord :: "int \<Rightarrow> int \<Rightarrow> int \<Rightarrow> date" where
  "ymd2ord year month day = days_before_year year + days_before_month year month + day"

section \<open>The twelve scenarios: \<open>get_scenario_analysis\<close>\<close>

text \<open>
  The three factors are passed as strings. The docstring lists the values:
  slope is one of U+4E0A U+5F4E (bending up), U+6301 U+5E73 (flat), U+4E0B U+5F4E (bending
  down); position is U+4E4B U+4E0A (above) or U+4E4B U+4E0B (below); alignment is
  U+591A U+982D U+6392 U+5217 (bullish alignment) or U+7121 (none).
\<close>

definition shang_wan :: pystr where
  "shang_wan = [0x4E0A, 0x5F4E]"

definition chi_ping :: pystr where
  "chi_ping = [0x6301, 0x5E73]"

definition xia_wan :: pystr where
  "xia_wan = [0x4E0B, 0x5F4E]"

definition zhi_shang :: pystr where
  "zhi_shang = [0x4E4B, 0x4E0A]"

definition zhi_xia :: pystr where
  "zhi_xia = [0x4E4B, 0x4E0B]"

definition duo_tou_pai_lie :: pystr where
  "duo_tou_pai_lie = [0x591A, 0x982D, 0x6392, 0x5217]"

definition wu :: pystr where
  "wu = [0x7121]"

text \<open>
  A scenario is the tuple (id, description, conclusion, status tag) of the source. The
  dictionary literal \<open>scenarios\<close> is kept as the list of its items, in the order of the
  source; its keys are pairwise distinct, so looking a key up in the list is looking it
  up in the dictionary.
\<close>

type_synonym scenario = "int \<times> pystr \<times> pystr \<times> pystr"

definition scenarios :: "((pystr \<times> pystr \<times> pystr) \<times> scenario) list" where
  "scenarios = [
   \<comment> \<open>1: main rising leg / strong stock\<close>
   ((shang_wan, zhi_shang, duo_tou_pai_lie),
    (1,
     [0x4E3B, 0x5347, 0x6BB5, 0x20, 0x2F, 0x20, 0x5F37, 0x52E2, 0x80A1],
     [0x3010, 0x6700, 0x5F37, 0x591A, 0x982D, 0x3011, 0x6700, 0x4F73, 0x8CB7, 0x9EDE, 0x6216, 0x7E8C, 0x62B1, 0xFF0C, 0x62C9, 0x56DE, 0x4E0D, 0x7834, 0x5747, 0x7DDA, 0x7686, 0x662F, 0x8CB7, 0x9EDE, 0x3002],
     [0x1F7E2, 0x20, 0x591A, 0x982D])),
   \<comment> \<open>2: early rising leg / choppy climb\<close>
   ((shang_wan, zhi_shang, wu),
    (2,
     [0x521D, 0x5347, 0x6BB5, 0x20, 0x2F, 0x20, 0x9707, 0x76EA, 0x8D70, 0x9AD8],
     [0x3010, 0x9707, 0x76EA, 0x76E4, 0x5805, 0x3011, 0x77ED, 0x671F, 0x5F37, 0x52E2, 0xFF0C, 0x4F46, 0x9577, 0x7DDA, 0x67B6, 0x69CB, 0x672A, 0x6210, 0xFF0C, 0x77ED, 0x591A, 0x64CD, 0x4F5C, 0x3002],
     [0x1F7E1, 0x20, 0x9707, 0x76EA, 0x504F, 0x591A])),
   \<comment> \<open>3: pullback correction (golden pit)\<close>
   ((shang_wan, zhi_xia, duo_tou_pai_lie),
    (3,
     [0x56DE, 0x6A94, 0x4FEE, 0x6B63, 0x20, 0x28, 0x9EC3, 0x91D1, 0x5751, 0x29],
     [0x3010, 0x627E, 0x8CB7, 0x9EDE, 0x3011, 0x4FD7, 0x7A31, 0x56DE, 0x99AC, 0x69CD, 0x3002, 0x8DA8, 0x52E2, 0x4ECD, 0x597D, 0x50C5, 0x80A1, 0x50F9, 0x56DE, 0x6A94, 0xFF0C, 0x627E, 0x652F, 0x6490, 0x4F4E, 0x63A5, 0x3002],
     [0x1F7E2, 0x20, 0x591A, 0x982D, 0x56DE, 0x6A94])),
   \<comment> \<open>4: bulls weakening / topping\<close>
   ((shang_wan, zhi_xia, wu),
    (4,
     [0x591A, 0x982D, 0x8F49, 0x5F31, 0x20, 0x2F, 0x20, 0x505A, 0x982D],
     [0x3010, 0x591A, 0x55AE, 0x96E2, 0x5834, 0x3011, 0x4E0A, 0x65B9, 0x7121, 0x4FDD, 0x8B77, 0xFF0C, 0x8DA8, 0x52E2, 0x53EF, 0x80FD, 0x8F49, 0x5F31, 0x3002],
     [0x1F7E0, 0x20, 0x8F49, 0x5F31, 0x8B66, 0x6212])),
   \<comment> \<open>5: strong consolidation / building momentum\<close>
   ((chi_ping, zhi_shang, duo_tou_pai_lie),
    (5,
     [0x5F37, 0x52E2, 0x6574, 0x7406, 0x20, 0x2F, 0x20, 0x84C4, 0x52E2],
     [0x3010, 0x6E96, 0x5099, 0x5674, 0x51FA, 0x3011, 0x8CE3, 0x58D3, 0x6D88, 0x5316, 0x5B8C, 0x7562, 0xFF0C, 0x7A81, 0x7834, 0x524D, 0x5146, 0x3002],
     [0x1F7E2, 0x20, 0x84C4, 0x52E2, 0x5F85, 0x767C])),
   \<comment> \<open>6: box consolidation (upper edge of range)\<close>
   ((chi_ping, zhi_shang, wu),
    (6,
     [0x7BB1, 0x578B, 0x6574, 0x7406, 0x20, 0x28, 0x5340, 0x9593, 0x4E0A, 0x7DE3, 0x29],
     [0x3010, 0x89C0, 0x671B, 0x2F, 0x77ED, 0x6253, 0x3011, 0x96A8, 0x6642, 0x53EF, 0x80FD, 0x88AB, 0x6253, 0x56DE, 0x7BB1, 0x578B, 0x4E0B, 0x7DE3, 0xFF0C, 0x9632, 0x5047, 0x7A81, 0x7834, 0x3002],
     [0x26AA, 0x20, 0x76E4, 0x6574, 0x89C0, 0x671B])),
   \<comment> \<open>7: false breakdown / deep shakeout\<close>
   ((chi_ping, zhi_xia, duo_tou_pai_lie),
    (7,
     [0x5047, 0x8DCC, 0x7834, 0x20, 0x2F, 0x20, 0x6DF1, 0x5EA6, 0x6D17, 0x76E4],
     [0x3010, 0x89C0, 0x5BDF, 0x652F, 0x6490, 0x3011, 0x9700, 0x5728, 0x33, 0x65E5, 0x5167, 0x7AD9, 0x56DE, 0xFF0C, 0x5426, 0x5247, 0x7834, 0x58DE, 0x7D50, 0x69CB, 0x3002],
     [0x1F7E0, 0x20, 0x89C0, 0x5BDF, 0x652F, 0x6490])),
   \<comment> \<open>8: weak consolidation (lower edge of range)\<close>
   ((chi_ping, zhi_xia, wu),
    (8,
     [0x5F31, 0x52E2, 0x6574, 0x7406, 0x20, 0x28, 0x5340, 0x9593, 0x4E0B, 0x7DE3, 0x29],
     [0x3010, 0x504F, 0x7A7A, 0x770B, 0x5F85, 0x3011, 0x7121, 0x652F, 0x6490, 0x529B, 0xFF0C, 0x5BB9, 0x6613, 0x6F14, 0x8B8A, 0x6210, 0x7E8C, 0x8DCC, 0x3002],
     [0x1F534, 0x20, 0x76E4, 0x6574, 0x504F, 0x7A7A])),
   \<comment> \<open>9: contradiction / extreme V reversal\<close>
   ((xia_wan, zhi_shang, duo_tou_pai_lie),
    (9,
     [0x77DB, 0x76FE, 0x20, 0x2F, 0x20, 0x6975, 0x7AEF, 0x56, 0x8F49],
     [0x3010, 0x7F55, 0x898B, 0x2F, 0x8B66, 0x6212, 0x3011, 0x6975, 0x77ED, 0x7DDA, 0x66B4, 0x6F32, 0xFF0C, 0x7559, 0x610F, 0x5287, 0x70C8, 0x6CE2, 0x52D5, 0x20, 0x28, 0x7406, 0x8AD6, 0x77DB, 0x76FE, 0x5340, 0x29, 0x3002],
     [0x1F7E3, 0x20, 0x7279, 0x6B8A, 0x60C5, 0x5883])),
   \<comment> \<open>10: bear-market rebound (escape wave)\<close>
   ((xia_wan, zhi_shang, wu),
    (10,
     [0x7A7A, 0x982D, 0x53CD, 0x5F48, 0x20, 0x28, 0x9003, 0x547D, 0x6CE2, 0x29],
     [0x3010, 0x627E, 0x8CE3, 0x9EDE, 0x3011, 0x84CB, 0x982D, 0x53CD, 0x58D3, 0xFF0C, 0x5BB9, 0x6613, 0x8A98, 0x591A, 0x6BBA, 0x591A, 0x3002],
     [0x1F534, 0x20, 0x7A7A, 0x982D, 0x53CD, 0x5F48])),
   \<comment> \<open>11: contradiction / sharp sell-off\<close>
   ((xia_wan, zhi_xia, duo_tou_pai_lie),
    (11,
     [0x77DB, 0x76FE, 0x20, 0x2F, 0x20, 0x6025, 0x6BBA],
     [0x3010, 0x7D50, 0x69CB, 0x7834, 0x58DE, 0x3011, 0x591A, 0x982D, 0x906D, 0x5D29, 0x76E4, 0x5F0F, 0x6025, 0x6BBA, 0xFF0C, 0x8DA8, 0x52E2, 0x6BC0, 0x6EC5, 0x958B, 0x59CB, 0x20, 0x28, 0x7406, 0x8AD6, 0x77DB, 0x76FE, 0x5340, 0x29, 0x3002],
     [0x1F7E3, 0x20, 0x7279, 0x6B8A, 0x60C5, 0x5883])),
   \<comment> \<open>12: main falling leg / bearish alignment\<close>
   ((xia_wan, zhi_xia, wu),
    (12,
     [0x4E3B, 0x8DCC, 0x6BB5, 0x20, 0x2F, 0x20, 0x7A7A, 0x982D, 0x6392, 0x5217],
     [0x3010, 0x7D55, 0x5C0D, 0x7A7A, 0x982D, 0x3011, 0x8DA8, 0x52E2, 0x5411, 0x4E0B, 0x3001, 0x5747, 0x7DDA, 0x58D3, 0x5236, 0xFF0C, 0x5207, 0x52FF, 0x63A5, 0x5200, 0x3002],
     [0x26AB, 0x20, 0x7D55, 0x5C0D, 0x7A7A, 0x982D]))
  ]"

text \<open>
  \<open>scenarios.get(key, default)\<close>: the default is the tuple with id 0, whose strings
  read "unknown scenario", "cannot judge" and "unknown" (after a white circle).
\<close>

definition unknown_scenario :: scenario where
  "unknown_scenario =
     (0,
      [0x672A, 0x77E5, 0x60C5, 0x5883],
      [0x7121, 0x6CD5, 0x5224, 0x65B7],
      [0x26AA, 0x20, 0x672A, 0x77E5])"

definition get_scenario_analysis :: "pystr \<Rightarrow> pystr \<Rightarrow> pystr \<Rightarrow> scenario" where
  "get_scenario_analysis slope position alignment =
     (let key = (slope, position, alignment)
      in case map_of scenarios key of
           Some v \<Rightarrow> v
         | None \<Rightarrow> unknown_scenario)"

definition sid :: "scenario \<Rightarrow> int" where
  "sid s = fst s"

definition scenario_tag :: "scenario \<Rightarrow> pystr" where
  "scenario_tag s = snd (snd (snd s))"

subsection \<open>The signal triple of the specification\<close>

text \<open>
  The specification names the three signals by enumerations. Each value stands for one
  of the labels of the source.
\<close>

datatype SlopeDirection = Up | Flat | Down

datatype PricePosition = Above | Below

datatype Alignment = Bullish | NoAlignment

fun slope_label :: "SlopeDirection \<Rightarrow> pystr" where
  "slope_label Up = shang_wan"
| "slope_label Flat = chi_ping"
| "slope_label Down = xia_wan"

fun position_label :: "PricePosition \<Rightarrow> pystr" where
  "position_label Above = zhi_shang"
| "position_label Below = zhi_xia"

fun alignment_label :: "Alignment \<Rightarrow> pystr" where
  "alignment_label Bullish = duo_tou_pai_lie"
| "alignment_label NoAlignment = wu"

text \<open>
  The id column of the decision table of section 4.2 of the specification, row by row,
  for comparison with what the dictionary of the source returns.
\<close>

fun spec_table_id :: "SlopeDirection \<Rightarrow> PricePosition \<Rightarrow> Alignment \<Rightarrow> int" where
  "spec_table_id Up Above Bullish = 1"
| "spec_table_id Up Above NoAlignment = 2"
| "spec_table_id Up Below Bullish = 3"
| "spec_table_id Up Below NoAlignment = 4"
| "spec_table_id Flat Above Bullish = 5"
| "spec_table_id Flat Above NoAlignment = 6"
| "spec_table_id Flat Below Bullish = 7"
| "spec_table_id Flat Below NoAlignment = 8"
| "spec_table_id Down Above Bullish = 9"
| "spec_table_id Down Above NoAlignment = 10"
| "spec_table_id Down Below Bullish = 11"
| "spec_table_id Down Below NoAlignment = 12"

text \<open>
  The Status column of the same table, row by row, in the words of the specification.
\<close>

fun spec_table_status :: "SlopeDirection \<Rightarrow> PricePosition \<Rightarrow> Alignment \<Rightarrow> string" where
  "spec_table_status Up Above Bullish = ''Strong bull''"
| "spec_table_status Up Above NoAlignment = ''Mild bull (choppy)''"
| "spec_table_status Up Below Bullish = ''Bull pullback''"
| "spec_table_status Up Below NoAlignment = ''Weakness warning''"
| "spec_table_status Flat Above Bullish = ''Poised to break out''"
| "spec_table_status Flat Above NoAlignment = ''Wait-and-see''"
| "spec_table_status Flat Below Bullish = ''Watch support''"
| "spec_table_status Flat Below NoAlignment = ''Mild bear (range)''"
| "spec_table_status Down Above Bullish = ''Special / rare''"
| "spec_table_status Down Above NoAlignment = ''Look for exit''"
| "spec_table_status Down Below Bullish = ''Structure broken''"
| "spec_table_status Down Below NoAlignment = ''Absolute bear''"

section \<open>The data frame and its indicators\<close>

text \<open>
  \<open>yf.download\<close> returns one row per trading day, indexed by time stamp, with the
  column \<open>Close\<close>. The frame is modelled as the list of its rows in index order; only
  the date of the index and the close are kept, the other columns are never read (a
  two-level column index is flattened to its first level before anything is read).
\<close>

record price_bar =
  index_date :: date
  Close :: pyfloat

text \<open>The frame after step 4, with the five computed columns.\<close>

record ind_bar = price_bar +
  MA5 :: pyfloat
  MA10 :: pyfloat
  MA20 :: pyfloat
  MA60 :: pyfloat
  MA20_Slope_Val :: pyfloat

text \<open>
  \<open>Series.rolling(window=w).mean()\<close>: \<open>min_periods\<close> defaults to the window size, so
  the value at position \<open>i\<close> is NaN unless the window of the \<open>w\<close> values ending at \<open>i\<close>
  lies inside the series and holds no NaN; then it is the mean of the window.
\<close>

definition mean :: "pyfloat list \<Rightarrow> pyfloat" where
  "mean ws = (if None \<in> set ws then None
              else Some (sum_list (map the ws) / real (length ws)))"

definition rolling_mean :: "nat \<Rightarrow> pyfloat list \<Rightarrow> pyfloat list" where
  "rolling_mean w xs =
     map (\<lambda>i. if i + 1 < w then None else mean (take w (drop (i + 1 - w) xs)))
         [0..<length xs]"

text \<open>\<open>Series.diff()\<close>: each value minus the one before it; NaN at the first position.\<close>

definition diff :: "pyfloat list \<Rightarrow> pyfloat list" where
  "diff xs = map (\<lambda>i. if i = 0 then None else fsub (xs ! i) (xs ! (i - 1))) [0..<length xs]"

text \<open>Step 4 of \<open>analyze_stock\<close>: the four moving averages and the slope of the MA20.\<close>

definition add_indicators :: "price_bar list \<Rightarrow> ind_bar list" where
  "add_indicators df =
     (let close = map Close df;
          ma5 = rolling_mean 5 close;
          ma10 = rolling_mean 10 close;
          ma20 = rolling_mean 20 close;
          ma60 = rolling_mean 60 close;
          ma20_slope_val = diff ma20
      in map (\<lambda>i. \<lparr>index_date = index_date (df ! i),
                    Close = close ! i,
                    MA5 = ma5 ! i,
                    MA10 = ma10 ! i,
                    MA20 = ma20 ! i,
                    MA60 = ma60 ! i,
                    MA20_Slope_Val = ma20_slope_val ! i\<rparr>)
             [0..<length df])"

section \<open>Classifying one row\<close>

text \<open>
  Judgement A of the loop body: the angle of the monthly line, with the threshold
  0.05 percent of the MA20; the product of the MA20 and the literal is a float64
  product.
\<close>

definition slope_status :: "pyfloat \<Rightarrow> pyfloat \<Rightarrow> pystr" where
  "slope_status ma20 slope_val =
     (let slope_threshold = fmul ma20 (Some float_0_0005)
      in if fgt slope_val slope_threshold then shang_wan
         else if flt slope_val (fneg slope_threshold) then xia_wan
         else chi_ping)"

text \<open>Judgement B: the close against the monthly line.\<close>

definition pos_status :: "pyfloat \<Rightarrow> pyfloat \<Rightarrow> pystr" where
  "pos_status close ma20 = (if fgt close ma20 then zhi_shang else zhi_xia)"

text \<open>Judgement C: the four lines in bullish order, 5 > 10 > 20 > 60.\<close>

definition align_status :: "pyfloat \<Rightarrow> pyfloat \<Rightarrow> pyfloat \<Rightarrow> pyfloat \<Rightarrow> pystr" where
  "align_status ma5 ma10 ma20 ma60 =
     (if fgt ma5 ma10 \<and> fgt ma10 ma20 \<and> fgt ma20 ma60 then duo_tou_pai_lie else wu)"

text \<open>
  One entry of \<open>results\<close>. The keys of the source's dictionary are Chinese; the fields
  are, in its order: date, close, trend tag, scenario id, scenario description,
  conclusion, and the three raw labels (slope of the monthly line, price position, state
  of the averages). The source stores the date formatted as year-month-day; the row keeps
  the date itself.
\<close>

record result_row =
  row_date :: date
  row_close :: pyfloat
  row_tag :: pystr
  row_sid :: int
  row_desc :: pystr
  row_conclusion :: pystr
  row_slope :: pystr
  row_position :: pystr
  row_alignment :: pystr

text \<open>The body of the loop over the rows of \<open>target_df\<close> (step 6).\<close>

definition classify_row :: "ind_bar \<Rightarrow> result_row" where
  "classify_row row =
     (let close = Close row;
          ma5 = MA5 row; ma10 = MA10 row; ma20 = MA20 row; ma60 = MA60 row;
          slope_val = MA20_Slope_Val row;
          slope = slope_status ma20 slope_val;
          pos = pos_status close ma20;
          align = align_status ma5 ma10 ma20 ma60
      in case get_scenario_analysis slope pos align of
           (i, desc, conclusion, tag) \<Rightarrow>
             \<lparr>row_date = index_date row,
              row_close = close,
              row_tag = tag,
              row_sid = i,
              row_desc = desc,
              row_conclusion = conclusion,
              row_slope = slope,
              row_position = pos,
              row_alignment = align\<rparr>)"

section \<open>\<open>analyze_stock\<close> and \<open>main\<close>\<close>

text \<open>
  The download is the one call to the outside: it is a parameter of the model, and
  either raises (any exception ends in the handler at the bottom of \<open>analyze_stock\<close>)
  or returns a frame.
\<close>

datatype download_result = Raised | Frame "price_bar list"

type_synonym downloader = "pystr \<Rightarrow> date \<Rightarrow> date \<Rightarrow> download_result"

text \<open>
  What \<open>analyze_stock\<close> shows: the error "no data found for the ticker" (empty frame),
  the warning "no trading data in the chosen interval", the table of results, or the
  error message of the exception handler.
\<close>

datatype outcome =
    Error_NoData
  | Warning_NoTrading
  | Shown "result_row list"
  | Error_Exception

definition target_rows :: "ind_bar list \<Rightarrow> date \<Rightarrow> date \<Rightarrow> ind_bar list" where
  "target_rows df start_date end_date =
     filter (\<lambda>r. index_date r \<ge> start_date \<and> index_date r \<le> end_date) df"

definition analyze_stock :: "downloader \<Rightarrow> pystr \<Rightarrow> date \<Rightarrow> date \<Rightarrow> outcome" where
  "analyze_stock download ticker start_date end_date =
     (let fetch_start = start_date - 120
      in case download ticker fetch_start (end_date + 1) of
           Raised \<Rightarrow> Error_Exception
         | Frame df \<Rightarrow>
             if df = [] then Error_NoData
             else let target_df = target_rows (add_indicators df) start_date end_date
                  in if target_df = [] then Warning_NoTrading
                     else Shown (map classify_row target_df))"

text \<open>
  \<open>main\<close>: the inputs of the side bar are the ticker, the two dates and whether the
  button was pressed. Nothing happens until the button is pressed; then the interval is
  checked before \<open>analyze_stock\<close> is called.
\<close>

datatype main_outcome =
    Idle
  | Error_TooLong int
  | Error_EndBeforeStart
  | Analysis outcome

definition main :: "downloader \<Rightarrow> pystr \<Rightarrow> date \<Rightarrow> date \<Rightarrow> bool \<Rightarrow> main_outcome" where
  "main download ticker start_input end_input run_btn =
     (let date_diff = end_input - start_input
      in if run_btn
         then (if date_diff > 10 then Error_TooLong date_diff
               else if date_diff < 0 then Error_EndBeforeStart
               else Analysis (analyze_stock download ticker start_input end_input))
         else Idle)"

section \<open>The contract of the specification, and concrete inputs\<close>


text \<open>The scenario tuple a result row carries.\<close>

definition row_scenario :: "result_row \<Rightarrow> scenario" where
  "row_scenario r = (row_sid r, row_desc r, row_conclusion r, row_tag r)"

text \<open>The rows of the table an outcome shows; the messages show none.\<close>

fun shown_rows :: "outcome \<Rightarrow> result_row list" where
  "shown_rows (Shown rs) = rs"
| "shown_rows Error_NoData = []"
| "shown_rows Warning_NoTrading = []"
| "shown_rows Error_Exception = []"

text \<open>The two messages of \<open>main\<close> that reject the interval.\<close>

fun is_validation_error :: "main_outcome \<Rightarrow> bool" where
  "is_validation_error (Error_TooLong d) = True"
| "is_validation_error Error_EndBeforeStart = True"
| "is_validation_error Idle = False"
| "is_validation_error (Analysis r) = False"

text \<open>
  Concrete inputs: a download that returns a given frame, the ticker "2330.TW", daily
  bars from 2024-01-02 with closes 1, 2, 3, ... or with the constant close 100, and an
  indicator bar with given columns.
\<close>

definition returns_frame :: "price_bar list \<Rightarrow> downloader" where
  "returns_frame df ticker fetch_start fetch_end = Frame df"

definition ticker_2330 :: pystr where
  "ticker_2330 = [0x32, 0x33, 0x33, 0x30, 0x2E, 0x54, 0x57]"

definition rising_bars :: "nat \<Rightarrow> price_bar list" where
  "rising_bars n =
     map (\<lambda>i. \<lparr>index_date = ymd2ord 2024 1 2 + int i, Close = Some (real i + 1)\<rparr>) [0..<n]"

definition flat_bars :: "nat \<Rightarrow> price_bar list" where
  "flat_bars n =
     map (\<lambda>i. \<lparr>index_date = ymd2ord 2024 1 2 + int i, Close = Some 100\<rparr>) [0..<n]"

definition example_bar ::
  "pyfloat \<Rightarrow> pyfloat \<Rightarrow> pyfloat \<Rightarrow> pyfloat \<Rightarrow> pyfloat \<Rightarrow> pyfloat \<Rightarrow> ind_bar" where
  "example_bar close ma5 ma10 ma20 ma60 slope_val =
     \<lparr>index_date = ymd2ord 2024 1 2, Close = close, MA5 = ma5, MA10 = ma10, MA20 = ma20,
      MA60 = ma60, MA20_Slope_Val = slope_val\<rparr>"

section \<open>The decision table is total\<close>

lemmas label_defs =
  shang_wan_def chi_ping_def xia_wan_def zhi_shang_def zhi_xia_def duo_tou_pai_lie_def wu_def

lemma scenarios_keys_distinct: "distinct (map fst scenarios)"
  by (simp add: scenarios_def label_defs)

lemma scenarios_lookup:
  "\<exists>v. map_of scenarios (slope_label s, position_label p, alignment_label a) = Some v
       \<and> sid v = spec_table_id s p a"
  by (cases s; cases p; cases a) (simp_all add: scenarios_def label_defs sid_def)

lemma spec_table_id_range: "1 \<le> spec_table_id s p a \<and> spec_table_id s p a \<le> 12"
  by (cases s; cases p; cases a) simp_all

lemma sid_unknown_scenario: "sid unknown_scenario = 0"
  by (simp add: sid_def unknown_scenario_def)

lemma scenarios_entries:
  "get_scenario_analysis (slope_label Up) (position_label Above) (alignment_label Bullish)
     = (1,
        [0x4E3B, 0x5347, 0x6BB5, 0x20, 0x2F, 0x20, 0x5F37, 0x52E2, 0x80A1],
        [0x3010, 0x6700, 0x5F37, 0x591A, 0x982D, 0x3011, 0x6700, 0x4F73, 0x8CB7, 0x9EDE,
         0x6216, 0x7E8C, 0x62B1, 0xFF0C, 0x62C9, 0x56DE, 0x4E0D, 0x7834, 0x5747, 0x7DDA,
         0x7686, 0x662F, 0x8CB7, 0x9EDE, 0x3002],
        [0x1F7E2, 0x20, 0x591A, 0x982D])
   \<and> get_scenario_analysis (slope_label Up) (position_label Above) (alignment_label NoAlignment)
     = (2,
        [0x521D, 0x5347, 0x6BB5, 0x20, 0x2F, 0x20, 0x9707, 0x76EA, 0x8D70, 0x9AD8],
        [0x3010, 0x9707, 0x76EA, 0x76E4, 0x5805, 0x3011, 0x77ED, 0x671F, 0x5F37, 0x52E2,
         0xFF0C, 0x4F46, 0x9577, 0x7DDA, 0x67B6, 0x69CB, 0x672A, 0x6210, 0xFF0C, 0x77ED,
         0x591A, 0x64CD, 0x4F5C, 0x3002],
        [0x1F7E1, 0x20, 0x9707, 0x76EA, 0x504F, 0x591A])
   \<and> get_scenario_analysis (slope_label Up) (position_label Below) (alignment_label Bullish)
     = (3,
        [0x56DE, 0x6A94, 0x4FEE, 0x6B63, 0x20, 0x28, 0x9EC3, 0x91D1, 0x5751, 0x29],
        [0x3010, 0x627E, 0x8CB7, 0x9EDE, 0x3011, 0x4FD7, 0x7A31, 0x56DE, 0x99AC, 0x69CD,
         0x3002, 0x8DA8, 0x52E2, 0x4ECD, 0x597D, 0x50C5, 0x80A1, 0x50F9, 0x56DE, 0x6A94,
         0xFF0C, 0x627E, 0x652F, 0x6490, 0x4F4E, 0x63A5, 0x3002],
        [0x1F7E2, 0x20, 0x591A, 0x982D, 0x56DE, 0x6A94])
   \<and> get_scenario_analysis (slope_label Up) (position_label Below) (alignment_label NoAlignment)
     = (4,
        [0x591A, 0x982D, 0x8F49, 0x5F31, 0x20, 0x2F, 0x20, 0x505A, 0x982D],
        [0x3010, 0x591A, 0x55AE, 0x96E2, 0x5834, 0x3011, 0x4E0A, 0x65B9, 0x7121, 0x4FDD,
         0x8B77, 0xFF0C, 0x8DA8, 0x52E2, 0x53EF, 0x80FD, 0x8F49, 0x5F31, 0x3002],
        [0x1F7E0, 0x20, 0x8F49, 0x5F31, 0x8B66, 0x6212])
   \<and> get_scenario_analysis (slope_label Flat) (position_label Above) (alignment_label Bullish)
     = (5,
        [0x5F37, 0x52E2, 0x6574, 0x7406, 0x20, 0x2F, 0x20, 0x84C4, 0x52E2],
        [0x3010, 0x6E96, 0x5099, 0x5674, 0x51FA, 0x3011, 0x8CE3, 0x58D3, 0x6D88, 0x5316,
         0x5B8C, 0x7562, 0xFF0C, 0x7A81, 0x7834, 0x524D, 0x5146, 0x3002],
        [0x1F7E2, 0x20, 0x84C4, 0x52E2, 0x5F85, 0x767C])
   \<and> get_scenario_analysis (slope_label Flat) (position_label Above) (alignment_label NoAlignment)
     = (6,
        [0x7BB1, 0x578B, 0x6574, 0x7406, 0x20, 0x28, 0x5340, 0x9593, 0x4E0A, 0x7DE3, 0x29],
        [0x3010, 0x89C0, 0x671B, 0x2F, 0x77ED, 0x6253, 0x3011, 0x96A8, 0x6642, 0x53EF,
         0x80FD, 0x88AB, 0x6253, 0x56DE, 0x7BB1, 0x578B, 0x4E0B, 0x7DE3, 0xFF0C, 0x9632,
         0x5047, 0x7A81, 0x7834, 0x3002],
        [0x26AA, 0x20, 0x76E4, 0x6574, 0x89C0, 0x671B])
   \<and> get_scenario_analysis (slope_label Flat) (position_label Below) (alignment_label Bullish)
     = (7,
        [0x5047, 0x8DCC, 0x7834, 0x20, 0x2F, 0x20, 0x6DF1, 0x5EA6, 0x6D17, 0x76E4],
        [0x3010, 0x89C0, 0x5BDF, 0x652F, 0x6490, 0x3011, 0x9700, 0x5728, 0x33, 0x65E5,
         0x5167, 0x7AD9, 0x56DE, 0xFF0C, 0x5426, 0x5247, 0x7834, 0x58DE, 0x7D50, 0x69CB,
         0x3002],
        [0x1F7E0, 0x20, 0x89C0, 0x5BDF, 0x652F, 0x6490])
   \<and> get_scenario_analysis (slope_label Flat) (position_label Below) (alignment_label NoAlignment)
     = (8,
        [0x5F31, 0x52E2, 0x6574, 0x7406, 0x20, 0x28, 0x5340, 0x9593, 0x4E0B, 0x7DE3, 0x29],
        [0x3010, 0x504F, 0x7A7A, 0x770B, 0x5F85, 0x3011, 0x7121, 0x652F, 0x6490, 0x529B,
         0xFF0C, 0x5BB9, 0x6613, 0x6F14, 0x8B8A, 0x6210, 0x7E8C, 0x8DCC, 0x3002],
        [0x1F534, 0x20, 0x76E4, 0x6574, 0x504F, 0x7A7A])
   \<and> get_scenario_analysis (slope_label Down) (position_label Above) (alignment_label Bullish)
     = (9,
        [0x77DB, 0x76FE, 0x20, 0x2F, 0x20, 0x6975, 0x7AEF, 0x56, 0x8F49],
        [0x3010, 0x7F55, 0x898B, 0x2F, 0x8B66, 0x6212, 0x3011, 0x6975, 0x77ED, 0x7DDA,
         0x66B4, 0x6F32, 0xFF0C, 0x7559, 0x610F, 0x5287, 0x70C8, 0x6CE2, 0x52D5, 0x20,
         0x28, 0x7406, 0x8AD6, 0x77DB, 0x76FE, 0x5340, 0x29, 0x3002],
        [0x1F7E3, 0x20, 0x7279, 0x6B8A, 0x60C5, 0x5883])
   \<and> get_scenario_analysis (slope_label Down) (position_label Above) (alignment_label NoAlignment)
     = (10,
        [0x7A7A, 0x982D, 0x53CD, 0x5F48, 0x20, 0x28, 0x9003, 0x547D, 0x6CE2, 0x29],
        [0x3010, 0x627E, 0x8CE3, 0x9EDE, 0x3011, 0x84CB, 0x982D, 0x53CD, 0x58D3, 0xFF0C,
         0x5BB9, 0x6613, 0x8A98, 0x591A, 0x6BBA, 0x591A, 0x3002],
        [0x1F534, 0x20, 0x7A7A, 0x982D, 0x53CD, 0x5F48])
   \<and> get_scenario_analysis (slope_label Down) (position_label Below) (alignment_label Bullish)
     = (11,
        [0x77DB, 0x76FE, 0x20, 0x2F, 0x20, 0x6025, 0x6BBA],
        [0x3010, 0x7D50, 0x69CB, 0x7834, 0x58DE, 0x3011, 0x591A, 0x982D, 0x906D, 0x5D29,
         0x76E4, 0x5F0F, 0x6025, 0x6BBA, 0xFF0C, 0x8DA8, 0x52E2, 0x6BC0, 0x6EC5, 0x958B,
         0x59CB, 0x20, 0x28, 0x7406, 0x8AD6, 0x77DB, 0x76FE, 0x5340, 0x29, 0x3002],
        [0x1F7E3, 0x20, 0x7279, 0x6B8A, 0x60C5, 0x5883])
   \<and> get_scenario_analysis (slope_label Down) (position_label Below) (alignment_label NoAlignment)
     = (12,
        [0x4E3B, 0x8DCC, 0x6BB5, 0x20, 0x2F, 0x20, 0x7A7A, 0x982D, 0x6392, 0x5217],
        [0x3010, 0x7D55, 0x5C0D, 0x7A7A, 0x982D, 0x3011, 0x8DA8, 0x52E2, 0x5411, 0x4E0B,
         0x3001, 0x5747, 0x7DDA, 0x58D3, 0x5236, 0xFF0C, 0x5207, 0x52FF, 0x63A5, 0x5200,
         0x3002],
        [0x26AB, 0x20, 0x7D55, 0x5C0D, 0x7A7A, 0x982D])"
  by (simp_all add: get_scenario_analysis_def scenarios_def label_defs)

text \<open>
  Claim C1 does not hold of the source in its status column. The specification gives the
  rows 9 and 11 of its table two different statuses, "Special / rare" and "Structure
  broken"; the source stores one and the same tag (a purple circle and the words "special
  scenario") under both keys. Whatever rendering of the source's strings the table is
  read with, the two tags of the source cannot be the two statuses of the table.
\<close>

theorem status_rows_9_11_counterexample:
  "scenario_tag
     (get_scenario_analysis (slope_label Down) (position_label Above) (alignment_label Bullish))
   = scenario_tag
     (get_scenario_analysis (slope_label Down) (position_label Below) (alignment_label Bullish))
   \<and> spec_table_status Down Above Bullish \<noteq> spec_table_status Down Below Bullish"
  by (simp add: scenario_tag_def get_scenario_analysis_def scenarios_def label_defs)

text \<open>
  Claim C1, as amended. For each of the twelve combinations of slope direction, price
  position and alignment, \<open>get_scenario_analysis\<close> finds the key in the dictionary and
  returns the entry stored under it: the id the decision table of the specification gives
  for the combination, a number from 1 to 12, with the description, the conclusion and
  the status tag of the source for that id, which are listed here code point by code
  point. The entry is never the fallback with id 0.
\<close>

theorem get_scenario_analysis_total:
  "get_scenario_analysis (slope_label Up) (position_label Above) (alignment_label Bullish)
     = (1,
        [0x4E3B, 0x5347, 0x6BB5, 0x20, 0x2F, 0x20, 0x5F37, 0x52E2, 0x80A1],
        [0x3010, 0x6700, 0x5F37, 0x591A, 0x982D, 0x3011, 0x6700, 0x4F73, 0x8CB7, 0x9EDE,
         0x6216, 0x7E8C, 0x62B1, 0xFF0C, 0x62C9, 0x56DE, 0x4E0D, 0x7834, 0x5747, 0x7DDA,
         0x7686, 0x662F, 0x8CB7, 0x9EDE, 0x3002],
        [0x1F7E2, 0x20, 0x591A, 0x982D])
   \<and> get_scenario_analysis (slope_label Up) (position_label Above) (alignment_label NoAlignment)
     = (2,
        [0x521D, 0x5347, 0x6BB5, 0x20, 0x2F, 0x20, 0x9707, 0x76EA, 0x8D70, 0x9AD8],
        [0x3010, 0x9707, 0x76EA, 0x76E4, 0x5805, 0x3011, 0x77ED, 0x671F, 0x5F37, 0x52E2,
         0xFF0C, 0x4F46, 0x9577, 0x7DDA, 0x67B6, 0x69CB, 0x672A, 0x6210, 0xFF0C, 0x77ED,
         0x591A, 0x64CD, 0x4F5C, 0x3002],
        [0x1F7E1, 0x20, 0x9707, 0x76EA, 0x504F, 0x591A])
   \<and> get_scenario_analysis (slope_label Up) (position_label Below) (alignment_label Bullish)
     = (3,
        [0x56DE, 0x6A94, 0x4FEE, 0x6B63, 0x20, 0x28, 0x9EC3, 0x91D1, 0x5751, 0x29],
        [0x3010, 0x627E, 0x8CB7, 0x9EDE, 0x3011, 0x4FD7, 0x7A31, 0x56DE, 0x99AC, 0x69CD,
         0x3002, 0x8DA8, 0x52E2, 0x4ECD, 0x597D, 0x50C5, 0x80A1, 0x50F9, 0x56DE, 0x6A94,
         0xFF0C, 0x627E, 0x652F, 0x6490, 0x4F4E, 0x63A5, 0x3002],
        [0x1F7E2, 0x20, 0x591A, 0x982D, 0x56DE, 0x6A94])
   \<and> get_scenario_analysis (slope_label Up) (position_label Below) (alignment_label NoAlignment)
     = (4,
        [0x591A, 0x982D, 0x8F49, 0x5F31, 0x20, 0x2F, 0x20, 0x505A, 0x982D],
        [0x3010, 0x591A, 0x55AE, 0x96E2, 0x5834, 0x3011, 0x4E0A, 0x65B9, 0x7121, 0x4FDD,
         0x8B77, 0xFF0C, 0x8DA8, 0x52E2, 0x53EF, 0x80FD, 0x8F49, 0x5F31, 0x3002],
        [0x1F7E0, 0x20, 0x8F49, 0x5F31, 0x8B66, 0x6212])
   \<and> get_scenario_analysis (slope_label Flat) (position_label Above) (alignment_label Bullish)
     = (5,
        [0x5F37, 0x52E2, 0x6574, 0x7406, 0x20, 0x2F, 0x20, 0x84C4, 0x52E2],
        [0x3010, 0x6E96, 0x5099, 0x5674, 0x51FA, 0x3011, 0x8CE3, 0x58D3, 0x6D88, 0x5316,
         0x5B8C, 0x7562, 0xFF0C, 0x7A81, 0x7834, 0x524D, 0x5146, 0x3002],
        [0x1F7E2, 0x20, 0x84C4, 0x52E2, 0x5F85, 0x767C])
   \<and> get_scenario_analysis (slope_label Flat) (position_label Above) (alignment_label NoAlignment)
     = (6,
        [0x7BB1, 0x578B, 0x6574, 0x7406, 0x20, 0x28, 0x5340, 0x9593, 0x4E0A, 0x7DE3, 0x29],
        [0x3010, 0x89C0, 0x671B, 0x2F, 0x77ED, 0x6253, 0x3011, 0x96A8, 0x6642, 0x53EF,
         0x80FD, 0x88AB, 0x6253, 0x56DE, 0x7BB1, 0x578B, 0x4E0B, 0x7DE3, 0xFF0C, 0x9632,
         0x5047, 0x7A81, 0x7834, 0x3002],
        [0x26AA, 0x20, 0x76E4, 0x6574, 0x89C0, 0x671B])
   \<and> get_scenario_analysis (slope_label Flat) (position_label Below) (alignment_label Bullish)
     = (7,
        [0x5047, 0x8DCC, 0x7834, 0x20, 0x2F, 0x20, 0x6DF1, 0x5EA6, 0x6D17, 0x76E4],
        [0x3010, 0x89C0, 0x5BDF, 0x652F, 0x6490, 0x3011, 0x9700, 0x5728, 0x33, 0x65E5,
         0x5167, 0x7AD9, 0x56DE, 0xFF0C, 0x5426, 0x5247, 0x7834, 0x58DE, 0x7D50, 0x69CB,
         0x3002],
        [0x1F7E0, 0x20, 0x89C0, 0x5BDF, 0x652F, 0x6490])
   \<and> get_scenario_analysis (slope_label Flat) (position_label Below) (alignment_label NoAlignment)
     = (8,
        [0x5F31, 0x52E2, 0x6574, 0x7406, 0x20, 0x28, 0x5340, 0x9593, 0x4E0B, 0x7DE3, 0x29],
        [0x3010, 0x504F, 0x7A7A, 0x770B, 0x5F85, 0x3011, 0x7121, 0x652F, 0x6490, 0x529B,
         0xFF0C, 0x5BB9, 0x6613, 0x6F14, 0x8B8A, 0x6210, 0x7E8C, 0x8DCC, 0x3002],
        [0x1F534, 0x20, 0x76E4, 0x6574, 0x504F, 0x7A7A])
   \<and> get_scenario_analysis (slope_label Down) (position_label Above) (alignment_label Bullish)
     = (9,
        [0x77DB, 0x76FE, 0x20, 0x2F, 0x20, 0x6975, 0x7AEF, 0x56, 0x8F49],
        [0x3010, 0x7F55, 0x898B, 0x2F, 0x8B66, 0x6212, 0x3011, 0x6975, 0x77ED, 0x7DDA,
         0x66B4, 0x6F32, 0xFF0C, 0x7559, 0x610F, 0x5287, 0x70C8, 0x6CE2, 0x52D5, 0x20,
         0x28, 0x7406, 0x8AD6, 0x77DB, 0x76FE, 0x5340, 0x29, 0x3002],
        [0x1F7E3, 0x20, 0x7279, 0x6B8A, 0x60C5, 0x5883])
   \<and> get_scenario_analysis (slope_label Down) (position_label Above) (alignment_label NoAlignment)
     = (10,
        [0x7A7A, 0x982D, 0x53CD, 0x5F48, 0x20, 0x28, 0x9003, 0x547D, 0x6CE2, 0x29],
        [0x3010, 0x627E, 0x8CE3, 0x9EDE, 0x3011, 0x84CB, 0x982D, 0x53CD, 0x58D3, 0xFF0C,
         0x5BB9, 0x6613, 0x8A98, 0x591A, 0x6BBA, 0x591A, 0x3002],
        [0x1F534, 0x20, 0x7A7A, 0x982D, 0x53CD, 0x5F48])
   \<and> get_scenario_analysis (slope_label Down) (position_label Below) (alignment_label Bullish)
     = (11,
        [0x77DB, 0x76FE, 0x20, 0x2F, 0x20, 0x6025, 0x6BBA],
        [0x3010, 0x7D50, 0x69CB, 0x7834, 0x58DE, 0x3011, 0x591A, 0x982D, 0x906D, 0x5D29,
         0x76E4, 0x5F0F, 0x6025, 0x6BBA, 0xFF0C, 0x8DA8, 0x52E2, 0x6BC0, 0x6EC5, 0x958B,
         0x59CB, 0x20, 0x28, 0x7406, 0x8AD6, 0x77DB, 0x76FE, 0x5340, 0x29, 0x3002],
        [0x1F7E3, 0x20, 0x7279, 0x6B8A, 0x60C5, 0x5883])
   \<and> get_scenario_analysis (slope_label Down) (position_label Below) (alignment_label NoAlignment)
     = (12,
        [0x4E3B, 0x8DCC, 0x6BB5, 0x20, 0x2F, 0x20, 0x7A7A, 0x982D, 0x6392, 0x5217],
        [0x3010, 0x7D55, 0x5C0D, 0x7A7A, 0x982D, 0x3011, 0x8DA8, 0x52E2, 0x5411, 0x4E0B,
         0x3001, 0x5747, 0x7DDA, 0x58D3, 0x5236, 0xFF0C, 0x5207, 0x52FF, 0x63A5, 0x5200,
         0x3002],
        [0x26AB, 0x20, 0x7D55, 0x5C0D, 0x7A7A, 0x982D])
   \<and> map_of scenarios (slope_label s, position_label p, alignment_label a)
       = Some (get_scenario_analysis (slope_label s) (position_label p) (alignment_label a))
   \<and> sid (get_scenario_analysis (slope_label s) (position_label p) (alignment_label a))
       = spec_table_id s p a
   \<and> spec_table_id s p a \<in> {1..12}
   \<and> sid (get_scenario_analysis (slope_label s) (position_label p) (alignment_label a)) \<noteq> 0
   \<and> get_scenario_analysis (slope_label s) (position_label p) (alignment_label a)
       \<noteq> unknown_scenario"
proof -
  let ?k = "(slope_label s, position_label p, alignment_label a)"
  from scenarios_lookup [of s p a] obtain v
    where v: "map_of scenarios ?k = Some v" "sid v = spec_table_id s p a"
    by auto
  have g: "get_scenario_analysis (slope_label s) (position_label p) (alignment_label a) = v"
    by (simp add: get_scenario_analysis_def v)
  from g v spec_table_id_range [of s p a] sid_unknown_scenario
  have "map_of scenarios ?k
       = Some (get_scenario_analysis (slope_label s) (position_label p) (alignment_label a))
   \<and> sid (get_scenario_analysis (slope_label s) (position_label p) (alignment_label a))
       = spec_table_id s p a
   \<and> spec_table_id s p a \<in> {1..12}
   \<and> sid (get_scenario_analysis (slope_label s) (position_label p) (alignment_label a)) \<noteq> 0
   \<and> get_scenario_analysis (slope_label s) (position_label p) (alignment_label a)
       \<noteq> unknown_scenario"
    by auto
  with scenarios_entries show ?thesis by blast
qed

theorem get_scenario_analysis_total_witness:
  "sid (get_scenario_analysis chi_ping zhi_xia wu) = 8
   \<and> get_scenario_analysis chi_ping zhi_xia wu \<noteq> unknown_scenario
   \<and> scenario_tag (get_scenario_analysis chi_ping zhi_xia wu)
       = [0x1F534, 0x20, 0x76E4, 0x6574, 0x504F, 0x7A7A]
   \<and> sid (get_scenario_analysis shang_wan zhi_shang duo_tou_pai_lie) = 1
   \<and> sid (get_scenario_analysis xia_wan zhi_xia wu) = 12"
  using get_scenario_analysis_total [of Flat Below NoAlignment]
    get_scenario_analysis_total [of Up Above Bullish]
    get_scenario_analysis_total [of Down Below NoAlignment]
  by (simp add: scenario_tag_def sid_def unknown_scenario_def)

section \<open>Rounding to float64\<close>

lemma round_doubling_numeral:
  "round_doubling (numeral n) x =
     (if \<bar>x\<bar> < 2 ^ 52 then round_doubling (pred_numeral n) (2 * x) / 2
      else of_int (round_half_even x))"
  by (simp add: numeral_eq_Suc)

lemma round_halving_numeral:
  "round_halving (numeral n) x =
     (if \<bar>x\<bar> \<ge> 2 ^ 53 then 2 * round_halving (pred_numeral n) (x / 2)
      else of_int (round_half_even x))"
  by (simp add: numeral_eq_Suc)

lemmas round64_eval =
  round64_def round_doubling_numeral round_halving_numeral round_half_even_def Let_def

text \<open>
  The float64 values of the literals: 0.0005 is 0x1.0624dd2f1a9fcp-11, 0.05 is
  0x1.999999999999ap-5 and 0.0501 is 0x1.9a6b50b0f27bbp-5. The float64 product of 100 and
  0.0005 is the float64 0.05.
\<close>

lemma float_0_0005_value: "float_0_0005 = 1152921504606847 / 2 ^ 61"
  by (simp add: float_0_0005_def round64_eval)




lemma threshold_100: "round64 (100 * float_0_0005) = 3602879701896397 / 2 ^ 56"
  by (simp add: float_0_0005_value) (simp add: round64_eval)







section \<open>Deriving the three signals\<close>

lemma ymd_examples:
  "ymd2ord 2024 1 1 = 738886" "ymd2ord 2024 1 2 = 738887" "ymd2ord 2024 1 3 = 738888"
  "ymd2ord 2024 1 4 = 738889" "ymd2ord 2024 1 5 = 738890" "ymd2ord 2024 1 10 = 738895"
  "ymd2ord 2024 1 20 = 738905" "ymd2ord 2024 2 1 = 738917" "ymd2ord 2024 2 5 = 738921"
  by (simp_all add: ymd2ord_def days_before_year_def days_before_month_def is_leap_def)

lemma row_slope_classify:
  "row_slope (classify_row b) = slope_status (MA20 b) (MA20_Slope_Val b)"
  by (simp add: classify_row_def Let_def split: prod.splits)

lemma row_position_classify:
  "row_position (classify_row b) = pos_status (Close b) (MA20 b)"
  by (simp add: classify_row_def Let_def split: prod.splits)

lemma row_alignment_classify:
  "row_alignment (classify_row b) = align_status (MA5 b) (MA10 b) (MA20 b) (MA60 b)"
  by (simp add: classify_row_def Let_def split: prod.splits)

lemma row_date_classify: "row_date (classify_row b) = index_date b"
  by (simp add: classify_row_def Let_def split: prod.splits)

lemma row_scenario_classify:
  "row_scenario (classify_row b) =
     get_scenario_analysis (row_slope (classify_row b)) (row_position (classify_row b))
       (row_alignment (classify_row b))"
  by (simp add: row_scenario_def classify_row_def Let_def split: prod.splits)

lemma row_sid_classify: "row_sid (classify_row b) = sid (row_scenario (classify_row b))"
  by (simp add: row_scenario_def sid_def)

lemma slope_status_present:
  "slope_status (Some m) (Some s) =
     (if s > round64 (m * float_0_0005) then shang_wan
      else if s < - round64 (m * float_0_0005) then xia_wan
      else chi_ping)"
  by (simp add: slope_status_def Let_def fgt_def flt_def fmul_def fneg_def)




text \<open>
  Claim C4. For a bar with MA20 present, the position label is "above" exactly when the
  close is present and strictly greater than the MA20, and "below" otherwise; a close
  equal to the MA20 is "below".
\<close>

theorem pos_status_strict:
  "MA20 b = Some m \<Longrightarrow>
     (row_position (classify_row b) = position_label Above
        \<longleftrightarrow> (\<exists>c. Close b = Some c \<and> c > m))
   \<and> (row_position (classify_row b) \<noteq> position_label Above \<longrightarrow>
        row_position (classify_row b) = position_label Below)
   \<and> (Close b = Some m \<longrightarrow> row_position (classify_row b) = position_label Below)"
  by (auto simp: row_position_classify pos_status_def fgt_def label_defs split: option.splits)

theorem pos_status_strict_witness:
  "MA20 (example_bar (Some 100) (Some 103) (Some 102) (Some 100) (Some 99) (Some 0.1))
     = Some 100
   \<and> row_position (classify_row
        (example_bar (Some 100) (Some 103) (Some 102) (Some 100) (Some 99) (Some 0.1)))
       = position_label Below
   \<and> row_position (classify_row
        (example_bar (Some 101) (Some 103) (Some 102) (Some 100) (Some 99) (Some 0.1)))
       = position_label Above"
  using
    pos_status_strict
      [of "example_bar (Some 100) (Some 103) (Some 102) (Some 100) (Some 99) (Some 0.1)" 100]
    pos_status_strict
      [of "example_bar (Some 101) (Some 103) (Some 102) (Some 100) (Some 99) (Some 0.1)" 100]
  by (simp add: example_bar_def)

section \<open>The indicator columns\<close>

lemma length_rolling_mean: "length (rolling_mean w xs) = length xs"
  by (simp add: rolling_mean_def)

lemma nth_rolling_mean:
  "i < length xs \<Longrightarrow>
     rolling_mean w xs ! i = (if i + 1 < w then None else mean (take w (drop (i + 1 - w) xs)))"
  by (simp add: rolling_mean_def)

lemma length_diff: "length (diff xs) = length xs"
  by (simp add: diff_def)

lemma nth_diff:
  "i < length xs \<Longrightarrow> diff xs ! i = (if i = 0 then None else fsub (xs ! i) (xs ! (i - 1)))"
  by (simp add: diff_def)

lemma length_add_indicators: "length (add_indicators df) = length df"
  by (simp add: add_indicators_def Let_def)

lemma nth_add_indicators:
  assumes "i < length df"
  shows "index_date (add_indicators df ! i) = index_date (df ! i)"
    and "Close (add_indicators df ! i) = Close (df ! i)"
    and "MA5 (add_indicators df ! i) = rolling_mean 5 (map Close df) ! i"
    and "MA10 (add_indicators df ! i) = rolling_mean 10 (map Close df) ! i"
    and "MA20 (add_indicators df ! i) = rolling_mean 20 (map Close df) ! i"
    and "MA60 (add_indicators df ! i) = rolling_mean 60 (map Close df) ! i"
    and "MA20_Slope_Val (add_indicators df ! i) = diff (rolling_mean 20 (map Close df)) ! i"
  using assms by (simp_all add: add_indicators_def Let_def)

lemma map_index_date_add_indicators:
  "map index_date (add_indicators df) = map index_date df"
  by (rule nth_equalityI) (simp_all add: length_add_indicators nth_add_indicators)



lemma rising_bars_6:
  "rising_bars 6 =
     [\<lparr>index_date = 738887, Close = Some 1\<rparr>, \<lparr>index_date = 738888, Close = Some 2\<rparr>,
      \<lparr>index_date = 738889, Close = Some 3\<rparr>, \<lparr>index_date = 738890, Close = Some 4\<rparr>,
      \<lparr>index_date = 738891, Close = Some 5\<rparr>, \<lparr>index_date = 738892, Close = Some 6\<rparr>]"
  by (simp add: rising_bars_def ymd_examples upt_rec)

section \<open>Alignment\<close>

lemma align_status_bullish:
  "align_status a5 a10 a20 a60 = duo_tou_pai_lie \<longleftrightarrow>
     (\<exists>x5 x10 x20 x60. a5 = Some x5 \<and> a10 = Some x10 \<and> a20 = Some x20 \<and> a60 = Some x60
         \<and> x5 > x10 \<and> x10 > x20 \<and> x20 > x60)"
  by (auto simp: align_status_def fgt_def label_defs split: option.splits)

lemma align_none_of_nan:
  "a5 = None \<or> a10 = None \<or> a20 = None \<or> a60 = None \<Longrightarrow> align_status a5 a10 a20 a60 = wu"
  by (auto simp: align_status_def fgt_def split: option.splits)

text \<open>
  Claim C5. The alignment label is "bullish" exactly when the four averages are present
  and MA5 > MA10 > MA20 > MA60 strictly, and "none" otherwise. In particular it is "none"
  when two adjacent averages are equal and when MA60 is absent; in a history shorter than
  60 bars MA60 is absent at every bar, so every bar has alignment "none".
\<close>

theorem align_status_strict:
  "(row_alignment (classify_row b) = alignment_label Bullish \<longleftrightarrow>
      (\<exists>x5 x10 x20 x60. MA5 b = Some x5 \<and> MA10 b = Some x10 \<and> MA20 b = Some x20
          \<and> MA60 b = Some x60 \<and> x5 > x10 \<and> x10 > x20 \<and> x20 > x60))
   \<and> (row_alignment (classify_row b) \<noteq> alignment_label Bullish \<longrightarrow>
        row_alignment (classify_row b) = alignment_label NoAlignment)
   \<and> (MA5 b = MA10 b \<or> MA10 b = MA20 b \<or> MA20 b = MA60 b \<longrightarrow>
        row_alignment (classify_row b) = alignment_label NoAlignment)
   \<and> (MA60 b = None \<longrightarrow> row_alignment (classify_row b) = alignment_label NoAlignment)
   \<and> (length df < 60 \<longrightarrow>
        (\<forall>i < length df. MA60 (add_indicators df ! i) = None
           \<and> row_alignment (classify_row (add_indicators df ! i))
               = alignment_label NoAlignment))"
proof -
  have 1: "row_alignment (classify_row b) = alignment_label Bullish \<longleftrightarrow>
      (\<exists>x5 x10 x20 x60. MA5 b = Some x5 \<and> MA10 b = Some x10 \<and> MA20 b = Some x20
          \<and> MA60 b = Some x60 \<and> x5 > x10 \<and> x10 > x20 \<and> x20 > x60)"
    by (simp add: row_alignment_classify align_status_bullish)
  have 2: "row_alignment (classify_row b) \<noteq> alignment_label Bullish \<longrightarrow>
        row_alignment (classify_row b) = alignment_label NoAlignment"
    by (simp add: row_alignment_classify align_status_def)
  have 3: "MA5 b = MA10 b \<or> MA10 b = MA20 b \<or> MA20 b = MA60 b \<longrightarrow>
        row_alignment (classify_row b) = alignment_label NoAlignment"
    by (auto simp: row_alignment_classify align_status_def fgt_def split: option.splits)
  have 4: "MA60 b = None \<longrightarrow> row_alignment (classify_row b) = alignment_label NoAlignment"
    by (simp add: row_alignment_classify align_none_of_nan)
  have 5: "length df < 60 \<longrightarrow>
        (\<forall>i < length df. MA60 (add_indicators df ! i) = None
           \<and> row_alignment (classify_row (add_indicators df ! i))
               = alignment_label NoAlignment)"
  proof (intro impI allI)
    fix i assume "length df < 60" "i < length df"
    then have "MA60 (add_indicators df ! i) = None"
      by (simp add: nth_add_indicators nth_rolling_mean)
    then show "MA60 (add_indicators df ! i) = None
           \<and> row_alignment (classify_row (add_indicators df ! i))
               = alignment_label NoAlignment"
      by (simp add: row_alignment_classify align_none_of_nan)
  qed
  from 1 2 3 4 5 show ?thesis by blast
qed

theorem align_status_strict_witness:
  "row_alignment (classify_row
      (example_bar (Some 104) (Some 103) (Some 102) (Some 101) (Some 100) (Some 0.1)))
     = alignment_label Bullish
   \<and> row_alignment (classify_row
      (example_bar (Some 104) (Some 103) (Some 103) (Some 101) (Some 100) (Some 0.1)))
     = alignment_label NoAlignment
   \<and> row_alignment (classify_row
      (example_bar (Some 104) (Some 103) (Some 102) (Some 101) None (Some 0.1)))
     = alignment_label NoAlignment
   \<and> length (rising_bars 6) < 60
   \<and> MA60 (add_indicators (rising_bars 6) ! 5) = None
   \<and> row_alignment (classify_row (add_indicators (rising_bars 6) ! 5))
     = alignment_label NoAlignment"
proof -
  have l: "length (rising_bars 6) = 6"
    by (simp add: rising_bars_def)
  note a = align_status_strict
    [of "example_bar (Some 104) (Some 103) (Some 102) (Some 101) (Some 100) (Some 0.1)"
        "rising_bars 6"]
  note b = align_status_strict
    [of "example_bar (Some 104) (Some 103) (Some 103) (Some 101) (Some 100) (Some 0.1)"
        "rising_bars 6"]
  note c = align_status_strict
    [of "example_bar (Some 104) (Some 103) (Some 102) (Some 101) None (Some 0.1)"
        "rising_bars 6"]
  from a have 1: "row_alignment (classify_row
      (example_bar (Some 104) (Some 103) (Some 102) (Some 101) (Some 100) (Some 0.1)))
     = alignment_label Bullish"
    by (simp add: example_bar_def)
  from b have 2: "row_alignment (classify_row
      (example_bar (Some 104) (Some 103) (Some 103) (Some 101) (Some 100) (Some 0.1)))
     = alignment_label NoAlignment"
    by (simp add: example_bar_def)
  from c have 3: "row_alignment (classify_row
      (example_bar (Some 104) (Some 103) (Some 102) (Some 101) None (Some 0.1)))
     = alignment_label NoAlignment"
    by (simp add: example_bar_def)
  from a l have 4: "MA60 (add_indicators (rising_bars 6) ! 5) = None
      \<and> row_alignment (classify_row (add_indicators (rising_bars 6) ! 5))
         = alignment_label NoAlignment"
    by simp
  from 1 2 3 4 l show ?thesis by simp
qed

section \<open>The moving averages against the contract\<close>








lemma sum_list_positive:
  "xs \<noteq> [] \<Longrightarrow> \<forall>x \<in> set xs. (0::real) < x \<Longrightarrow> 0 < sum_list xs"
proof (induction xs)
  case Nil
  then show ?case by simp
next
  case (Cons x xs)
  show ?case
  proof (cases "xs = []")
    case True
    with Cons.prems show ?thesis by simp
  next
    case False
    with Cons have "0 < sum_list xs" "0 < x" by simp_all
    then show ?thesis by simp
  qed
qed

text \<open>
  The averages of a series of positive closes are positive: on the price bars of the
  specification the threshold of the slope is never negative.
\<close>

lemma MA20_positive:
  assumes pos: "\<forall>x \<in> set df. \<exists>c > 0. Close x = Some c"
    and i: "i < length df" and m: "MA20 (add_indicators df ! i) = Some m"
  shows "0 < m"
proof -
  let ?w = "take 20 (drop (i + 1 - 20) (map Close df))"
  from m i have r: "\<not> i + 1 < 20" "mean ?w = Some m"
    by (auto simp: nth_add_indicators nth_rolling_mean split: if_splits)
  have sub: "set ?w \<subseteq> Close ` set df"
    using set_take_subset [of 20 "drop (i + 1 - 20) (map Close df)"]
      set_drop_subset [of "i + 1 - 20" "map Close df"] by auto
  have ne: "?w \<noteq> []" using r(1) i by auto
  have p: "\<forall>y \<in> set (map the ?w). (0::real) < y"
    using sub pos by fastforce
  from ne have "map the ?w \<noteq> []" by simp
  then have "0 < sum_list (map the ?w)"
    using p by (rule sum_list_positive)
  moreover have "0 < real (length ?w)" using ne by simp
  moreover from r(2) have "m = sum_list (map the ?w) / real (length ?w)"
    by (simp add: mean_def split: if_splits)
  ultimately show ?thesis by simp
qed

section \<open>A flat series\<close>

lemma mean_replicate: "0 < n \<Longrightarrow> mean (replicate n (Some c)) = Some c"
  by (simp add: mean_def sum_list_replicate)

lemma rolling_mean_const:
  assumes c: "\<forall>x \<in> set df. Close x = Some c"
    and i: "i < length df" and n: "0 < n" "n \<le> i + 1"
  shows "rolling_mean n (map Close df) ! i = Some c"
proof -
  have "map Close df = map (\<lambda>_. Some c) df"
    using c by simp
  then have r: "map Close df = replicate (length df) (Some c)"
    by (simp add: map_replicate_const)
  have "take n (drop (i + 1 - n) (replicate (length df) (Some c))) = replicate n (Some c)"
    using i n by (simp add: min_def)
  then show ?thesis
    using i n by (simp add: nth_rolling_mean r mean_replicate)
qed

lemma flat_below_none_is_8:
  "sid (get_scenario_analysis chi_ping zhi_xia wu) = 8"
proof -
  obtain v where v: "map_of scenarios (chi_ping, zhi_xia, wu) = Some v" "sid v = 8"
    using scenarios_lookup [of Flat Below NoAlignment] by auto
  then show ?thesis by (simp add: get_scenario_analysis_def)
qed

text \<open>
  Claim C9. In a series of 65 bars whose close is always 100, the last bar has MA20 = 100
  and slope 0, its close equals its MA20, and its four averages are equal: the signals are
  flat, below and none, and the scenario id is 8.
\<close>

theorem flat_series_scenario_8:
  assumes "length df = 65" and "\<forall>x \<in> set df. Close x = Some 100"
  shows "MA20 (last (add_indicators df)) = Some 100
       \<and> MA20_Slope_Val (last (add_indicators df)) = Some 0
       \<and> Close (last (add_indicators df)) = MA20 (last (add_indicators df))
       \<and> MA5 (last (add_indicators df)) = MA60 (last (add_indicators df))
       \<and> row_slope (classify_row (last (add_indicators df))) = slope_label Flat
       \<and> row_position (classify_row (last (add_indicators df))) = position_label Below
       \<and> row_alignment (classify_row (last (add_indicators df))) = alignment_label NoAlignment
       \<and> row_sid (classify_row (last (add_indicators df))) = 8"
proof -
  let ?b = "add_indicators df ! 64"
  have l: "last (add_indicators df) = ?b"
    using assms(1) by (simp add: last_conv_nth length_add_indicators flip: length_0_conv)
  have i: "(64::nat) < length df" "(63::nat) < length df" using assms(1) by simp_all
  have m: "\<And>n i. i < length df \<Longrightarrow> 0 < n \<Longrightarrow> n \<le> i + 1
            \<Longrightarrow> rolling_mean n (map Close df) ! i = Some 100"
    using assms(2) by (rule rolling_mean_const)
  have c: "Close ?b = Some 100"
    using i assms(2) by (simp add: nth_add_indicators)
  have ma: "MA5 ?b = Some 100" "MA10 ?b = Some 100" "MA20 ?b = Some 100" "MA60 ?b = Some 100"
    using i by (simp_all add: nth_add_indicators m)
  have sl: "MA20_Slope_Val ?b = Some 0"
    using i by (simp add: nth_add_indicators nth_diff length_rolling_mean m fsub_def)
  have s: "row_slope (classify_row ?b) = slope_label Flat"
    by (simp add: row_slope_classify ma sl slope_status_present threshold_100)
  have p: "row_position (classify_row ?b) = position_label Below"
    by (simp add: row_position_classify ma c pos_status_def fgt_def)
  have a: "row_alignment (classify_row ?b) = alignment_label NoAlignment"
    by (simp add: row_alignment_classify ma align_status_def fgt_def)
  have "row_sid (classify_row ?b) = 8"
    unfolding row_sid_classify row_scenario_classify s p a
    by (simp add: flat_below_none_is_8)
  with c ma sl s p a show ?thesis unfolding l by simp
qed

theorem flat_series_scenario_8_witness:
  "length (flat_bars 65) = 65
   \<and> row_slope (classify_row (last (add_indicators (flat_bars 65)))) = slope_label Flat
   \<and> row_position (classify_row (last (add_indicators (flat_bars 65)))) = position_label Below
   \<and> row_alignment (classify_row (last (add_indicators (flat_bars 65))))
       = alignment_label NoAlignment
   \<and> row_sid (classify_row (last (add_indicators (flat_bars 65)))) = 8"
proof -
  have l: "length (flat_bars 65) = 65"
    by (simp add: flat_bars_def)
  have c: "\<forall>x \<in> set (flat_bars 65). Close x = Some 100"
    by (auto simp: flat_bars_def)
  from flat_series_scenario_8 [OF l c] l show ?thesis by simp
qed

section \<open>The requested interval\<close>

lemma target_rows_dates:
  "map index_date (target_rows (add_indicators df) s e)
     = filter (\<lambda>d. s \<le> d \<and> d \<le> e) (map index_date df)"
proof -
  have "map index_date (target_rows (add_indicators df) s e)
      = filter (\<lambda>d. s \<le> d \<and> d \<le> e) (map index_date (add_indicators df))"
    by (simp add: target_rows_def filter_map comp_def)
  then show ?thesis by (simp only: map_index_date_add_indicators)
qed

lemma map_row_date_classify: "map row_date (map classify_row bs) = map index_date bs"
  by (simp add: row_date_classify comp_def)

text \<open>
  Claim C8, as amended. When the download returns an empty frame, the outcome is the
  error message that no data was found, with no row. When it returns a non-empty frame,
  the indicators are computed on the whole frame and the rows whose date lies in the
  closed interval from the start date to the end date are kept. If no date of the frame
  lies in the interval, and only then, the outcome is the warning, with no row. Otherwise
  the outcome is the table with one classified row per kept bar: the dates of the rows are
  the dates of the frame that lie in the interval, in the order of the frame, which is
  chronological when the frame is.
\<close>

theorem analyze_stock_window:
  assumes "download ticker (start_date - 120) (end_date + 1) = Frame df"
  shows "(df = [] \<longrightarrow>
            analyze_stock download ticker start_date end_date = Error_NoData
          \<and> shown_rows (analyze_stock download ticker start_date end_date) = [])
       \<and> (df \<noteq> [] \<longrightarrow>
            (analyze_stock download ticker start_date end_date = Warning_NoTrading
               \<longleftrightarrow> (\<forall>x \<in> set df.
                      \<not> (start_date \<le> index_date x \<and> index_date x \<le> end_date)))
          \<and> (analyze_stock download ticker start_date end_date \<noteq> Warning_NoTrading \<longrightarrow>
               analyze_stock download ticker start_date end_date
                 = Shown (map classify_row
                     (target_rows (add_indicators df) start_date end_date)))
          \<and> shown_rows (analyze_stock download ticker start_date end_date)
               = map classify_row (target_rows (add_indicators df) start_date end_date))
       \<and> set (target_rows (add_indicators df) start_date end_date)
            = {b \<in> set (add_indicators df).
                 start_date \<le> index_date b \<and> index_date b \<le> end_date}
       \<and> map row_date (map classify_row (target_rows (add_indicators df) start_date end_date))
            = filter (\<lambda>d. start_date \<le> d \<and> d \<le> end_date) (map index_date df)
       \<and> (sorted (map index_date df) \<longrightarrow>
            sorted (map row_date
              (map classify_row (target_rows (add_indicators df) start_date end_date))))"
proof -
  let ?t = "target_rows (add_indicators df) start_date end_date"
  have n: "df = [] \<longrightarrow>
            analyze_stock download ticker start_date end_date = Error_NoData
          \<and> shown_rows (analyze_stock download ticker start_date end_date) = []"
    using assms by (simp add: analyze_stock_def Let_def)
  have a: "df \<noteq> [] \<longrightarrow> analyze_stock download ticker start_date end_date
             = (if ?t = [] then Warning_NoTrading else Shown (map classify_row ?t))"
    using assms by (simp add: analyze_stock_def Let_def)
  have d: "map row_date (map classify_row ?t)
             = filter (\<lambda>d. start_date \<le> d \<and> d \<le> end_date) (map index_date df)"
    by (simp only: map_row_date_classify target_rows_dates)
  have e: "?t = [] \<longleftrightarrow>
             (\<forall>x \<in> set df. \<not> (start_date \<le> index_date x \<and> index_date x \<le> end_date))"
  proof -
    have "?t = [] \<longleftrightarrow> map index_date ?t = []" by simp
    also have "\<dots> \<longleftrightarrow>
        filter (\<lambda>d. start_date \<le> d \<and> d \<le> end_date) (map index_date df) = []"
      by (simp only: target_rows_dates)
    also have "\<dots> \<longleftrightarrow>
        (\<forall>x \<in> set df. \<not> (start_date \<le> index_date x \<and> index_date x \<le> end_date))"
      by (simp add: filter_empty_conv)
    finally show ?thesis .
  qed
  have s: "set ?t = {b \<in> set (add_indicators df).
                       start_date \<le> index_date b \<and> index_date b \<le> end_date}"
    by (auto simp: target_rows_def)
  have o: "sorted (map index_date df) \<longrightarrow> sorted (map row_date (map classify_row ?t))"
    unfolding d by (simp add: sorted_wrt_filter)
  have r: "df \<noteq> [] \<longrightarrow>
      shown_rows (analyze_stock download ticker start_date end_date) = map classify_row ?t"
    using a by simp
  from n a d e s o r show ?thesis by auto
qed

theorem analyze_stock_window_witness:
  "returns_frame (rising_bars 6) ticker_2330 (ymd2ord 2024 1 3 - 120) (ymd2ord 2024 1 4 + 1)
     = Frame (rising_bars 6)
   \<and> rising_bars 6 \<noteq> []
   \<and> sorted (map index_date (rising_bars 6))
   \<and> analyze_stock (returns_frame (rising_bars 6)) ticker_2330
        (ymd2ord 2024 1 3) (ymd2ord 2024 1 4)
       = Shown (map classify_row
           (target_rows (add_indicators (rising_bars 6)) (ymd2ord 2024 1 3) (ymd2ord 2024 1 4)))
   \<and> map row_date (map classify_row
        (target_rows (add_indicators (rising_bars 6)) (ymd2ord 2024 1 3) (ymd2ord 2024 1 4)))
       = [ymd2ord 2024 1 3, ymd2ord 2024 1 4]
   \<and> analyze_stock (returns_frame (rising_bars 6)) ticker_2330
        (ymd2ord 2024 2 1) (ymd2ord 2024 2 5)
       = Warning_NoTrading
   \<and> analyze_stock (returns_frame []) ticker_2330 (ymd2ord 2024 1 3) (ymd2ord 2024 1 4)
       = Error_NoData
   \<and> shown_rows
        (analyze_stock (returns_frame []) ticker_2330 (ymd2ord 2024 1 3) (ymd2ord 2024 1 4))
       = []"
proof -
  have f: "\<And>df s e. returns_frame df ticker_2330 (s - 120) (e + 1) = Frame df"
    by (simp add: returns_frame_def)
  have n: "rising_bars 6 \<noteq> []"
    by (simp add: rising_bars_6)
  have o: "sorted (map index_date (rising_bars 6))"
    by (simp add: rising_bars_6)
  note t1 = analyze_stock_window
      [of "returns_frame (rising_bars 6)" ticker_2330 "ymd2ord 2024 1 3" "ymd2ord 2024 1 4"
          "rising_bars 6", OF f]
  note t2 = analyze_stock_window
      [of "returns_frame (rising_bars 6)" ticker_2330 "ymd2ord 2024 2 1" "ymd2ord 2024 2 5"
          "rising_bars 6", OF f]
  note t3 = analyze_stock_window
      [of "returns_frame []" ticker_2330 "ymd2ord 2024 1 3" "ymd2ord 2024 1 4" "[]", OF f]
  have in1: "\<not> (\<forall>x \<in> set (rising_bars 6).
      \<not> (ymd2ord 2024 1 3 \<le> index_date x \<and> index_date x \<le> ymd2ord 2024 1 4))"
    by (simp add: rising_bars_6 ymd_examples)
  have out2: "\<forall>x \<in> set (rising_bars 6).
      \<not> (ymd2ord 2024 2 1 \<le> index_date x \<and> index_date x \<le> ymd2ord 2024 2 5)"
    by (simp add: rising_bars_6 ymd_examples)
  have d: "filter (\<lambda>d. ymd2ord 2024 1 3 \<le> d \<and> d \<le> ymd2ord 2024 1 4)
             (map index_date (rising_bars 6)) = [ymd2ord 2024 1 3, ymd2ord 2024 1 4]"
    by (simp add: rising_bars_6 ymd_examples)
  from t1 n in1 have 1: "analyze_stock (returns_frame (rising_bars 6)) ticker_2330
        (ymd2ord 2024 1 3) (ymd2ord 2024 1 4)
       = Shown (map classify_row
           (target_rows (add_indicators (rising_bars 6)) (ymd2ord 2024 1 3) (ymd2ord 2024 1 4)))"
    by blast
  from t1 d have 2: "map row_date (map classify_row
        (target_rows (add_indicators (rising_bars 6)) (ymd2ord 2024 1 3) (ymd2ord 2024 1 4)))
       = [ymd2ord 2024 1 3, ymd2ord 2024 1 4]"
    by (simp only:)
  from t2 n out2 have 3: "analyze_stock (returns_frame (rising_bars 6)) ticker_2330
        (ymd2ord 2024 2 1) (ymd2ord 2024 2 5) = Warning_NoTrading"
    by blast
  from t3 have 4: "analyze_stock (returns_frame []) ticker_2330
        (ymd2ord 2024 1 3) (ymd2ord 2024 1 4) = Error_NoData
     \<and> shown_rows (analyze_stock (returns_frame []) ticker_2330
        (ymd2ord 2024 1 3) (ymd2ord 2024 1 4)) = []"
    by blast
  from f n o 1 2 3 4 show ?thesis by blast
qed

text \<open>
  Claim C8 does not hold of the source for an empty history: the interval then holds no
  bar, and the outcome is the error message that no data was found for the ticker, not
  the warning.
\<close>

theorem analyze_stock_empty_frame_counterexample:
  "analyze_stock (returns_frame []) ticker_2330 (ymd2ord 2024 1 2) (ymd2ord 2024 1 5)
     = Error_NoData
   \<and> analyze_stock (returns_frame []) ticker_2330 (ymd2ord 2024 1 2) (ymd2ord 2024 1 5)
     \<noteq> Warning_NoTrading"
  by (simp add: analyze_stock_def returns_frame_def)

section \<open>The interval policy of \<open>main\<close>\<close>

text \<open>
  Claim C7. Once the button is pressed, \<open>main\<close> rejects the interval, without calling
  \<open>analyze_stock\<close>, exactly when the end date is before the start date or the difference
  exceeds 10 days; otherwise the outcome is that of \<open>analyze_stock\<close>. The interval from
  2024-01-01 to 2024-01-20 is rejected as too long (19 days), and the interval from
  2024-01-10 to 2024-01-05 is rejected because the end is before the start.
\<close>

theorem main_window_policy:
  "run_btn \<Longrightarrow>
     (is_validation_error (main download ticker s e run_btn) \<longleftrightarrow> e < s \<or> e - s > 10)
   \<and> (e \<ge> s \<and> e - s \<le> 10 \<longrightarrow>
        main download ticker s e run_btn = Analysis (analyze_stock download ticker s e))
   \<and> (e < s \<longrightarrow> main download ticker s e run_btn = Error_EndBeforeStart)
   \<and> (e - s > 10 \<longrightarrow> main download ticker s e run_btn = Error_TooLong (e - s))
   \<and> (s = ymd2ord 2024 1 1 \<and> e = ymd2ord 2024 1 20 \<longrightarrow>
        main download ticker s e run_btn = Error_TooLong 19)
   \<and> (s = ymd2ord 2024 1 10 \<and> e = ymd2ord 2024 1 5 \<longrightarrow>
        main download ticker s e run_btn = Error_EndBeforeStart)"
  by (auto simp: main_def Let_def ymd_examples)

theorem main_window_policy_witness:
  "main (returns_frame (rising_bars 6)) ticker_2330 (ymd2ord 2024 1 1) (ymd2ord 2024 1 20) True
     = Error_TooLong 19
   \<and> main (returns_frame (rising_bars 6)) ticker_2330 (ymd2ord 2024 1 10) (ymd2ord 2024 1 5) True
     = Error_EndBeforeStart
   \<and> main (returns_frame (rising_bars 6)) ticker_2330 (ymd2ord 2024 1 3) (ymd2ord 2024 1 4) True
     = Analysis (analyze_stock (returns_frame (rising_bars 6)) ticker_2330
         (ymd2ord 2024 1 3) (ymd2ord 2024 1 4))"
  using
    main_window_policy [of True "returns_frame (rising_bars 6)" ticker_2330
      "ymd2ord 2024 1 1" "ymd2ord 2024 1 20"]
    main_window_policy [of True "returns_frame (rising_bars 6)" ticker_2330
      "ymd2ord 2024 1 10" "ymd2ord 2024 1 5"]
    main_window_policy [of True "returns_frame (rising_bars 6)" ticker_2330
      "ymd2ord 2024 1 3" "ymd2ord 2024 1 4"]
  by (simp add: ymd_examples)

section \<open>Absent indicator values\<close>

lemma slope_status_cases: "\<exists>s. slope_status m v = slope_label s"
proof -
  have "slope_status m v = slope_label Up \<or> slope_status m v = slope_label Down
        \<or> slope_status m v = slope_label Flat"
    by (simp add: slope_status_def Let_def)
  then show ?thesis by blast
qed

lemma pos_status_cases: "\<exists>p. pos_status c m = position_label p"
proof -
  have "pos_status c m = position_label Above \<or> pos_status c m = position_label Below"
    by (simp add: pos_status_def)
  then show ?thesis by blast
qed

lemma align_status_cases: "\<exists>a. align_status a5 a10 a20 a60 = alignment_label a"
proof -
  have "align_status a5 a10 a20 a60 = alignment_label Bullish
        \<or> align_status a5 a10 a20 a60 = alignment_label NoAlignment"
    by (simp add: align_status_def)
  then show ?thesis by blast
qed

text \<open>
  Whatever the columns of a bar hold, its three labels are labels of the docstring, so
  its scenario is an entry of the dictionary and never the fallback.
\<close>

lemma classify_row_regular:
  "row_scenario (classify_row b) \<in> snd ` set scenarios
   \<and> row_scenario (classify_row b) \<noteq> unknown_scenario
   \<and> 1 \<le> row_sid (classify_row b) \<and> row_sid (classify_row b) \<le> 12"
proof -
  obtain s where s: "row_slope (classify_row b) = slope_label s"
    unfolding row_slope_classify using slope_status_cases by blast
  obtain p where p: "row_position (classify_row b) = position_label p"
    unfolding row_position_classify using pos_status_cases by blast
  obtain a where a: "row_alignment (classify_row b) = alignment_label a"
    unfolding row_alignment_classify using align_status_cases by blast
  obtain v where v: "map_of scenarios (slope_label s, position_label p, alignment_label a) = Some v"
      "sid v = spec_table_id s p a"
    using scenarios_lookup by blast
  have g: "row_scenario (classify_row b) = v"
    by (simp add: row_scenario_classify s p a get_scenario_analysis_def v)
  have m: "v \<in> snd ` set scenarios"
    using map_of_SomeD [OF v(1)] by force
  have "sid v \<noteq> sid unknown_scenario"
    using v(2) spec_table_id_range [of s p a] by (simp add: sid_unknown_scenario)
  then have u: "v \<noteq> unknown_scenario" by auto
  have "row_sid (classify_row b) = spec_table_id s p a"
    by (simp add: row_sid_classify g v)
  with g m u spec_table_id_range [of s p a] show ?thesis by simp
qed

lemma analyze_stock_no_exception:
  "download ticker (start_date - 120) (end_date + 1) = Frame df
     \<Longrightarrow> analyze_stock download ticker start_date end_date \<noteq> Error_Exception"
  by (simp add: analyze_stock_def Let_def)

lemma slope_flat_of_nan: "m = None \<or> v = None \<Longrightarrow> slope_status m v = chi_ping"
  by (auto simp: slope_status_def Let_def fgt_def flt_def fmul_def fneg_def
      split: option.splits)

lemma pos_below_of_nan: "c = None \<or> m = None \<Longrightarrow> pos_status c m = zhi_xia"
  by (auto simp: pos_status_def fgt_def split: option.splits)

text \<open>
  Claim C10. Classifying a bar never raises. An absent value makes every comparison on it
  false: the slope label is "flat" when MA20 or the slope is absent, the position label
  is "below" when MA20 is absent, and the alignment label is "none" when MA20 or MA60 is
  absent. The bar still gets an entry of the dictionary, with an id from 1 to 12 and never
  the fallback; when MA20, the slope and MA60 are all absent the id is 8. A download that
  returns a frame never ends in the exception handler.
\<close>

theorem nan_defaults:
  "(MA20 b = None \<or> MA20_Slope_Val b = None \<longrightarrow>
      row_slope (classify_row b) = slope_label Flat)
   \<and> (MA20 b = None \<longrightarrow> row_position (classify_row b) = position_label Below)
   \<and> (MA20 b = None \<or> MA60 b = None \<longrightarrow>
        row_alignment (classify_row b) = alignment_label NoAlignment)
   \<and> row_sid (classify_row b) \<in> {1..12}
   \<and> row_scenario (classify_row b) \<in> snd ` set scenarios
   \<and> row_scenario (classify_row b) \<noteq> unknown_scenario
   \<and> (MA20 b = None \<and> MA20_Slope_Val b = None \<and> MA60 b = None \<longrightarrow>
        row_sid (classify_row b) = 8)
   \<and> (download ticker (start_date - 120) (end_date + 1) = Frame df \<longrightarrow>
        analyze_stock download ticker start_date end_date \<noteq> Error_Exception)"
proof -
  have s: "MA20 b = None \<or> MA20_Slope_Val b = None \<longrightarrow>
      row_slope (classify_row b) = slope_label Flat"
    by (simp add: row_slope_classify slope_flat_of_nan)
  have p: "MA20 b = None \<longrightarrow> row_position (classify_row b) = position_label Below"
    by (simp add: row_position_classify pos_below_of_nan)
  have a: "MA20 b = None \<or> MA60 b = None \<longrightarrow>
        row_alignment (classify_row b) = alignment_label NoAlignment"
    by (auto simp: row_alignment_classify align_none_of_nan)
  have e: "MA20 b = None \<and> MA20_Slope_Val b = None \<and> MA60 b = None \<longrightarrow>
        row_sid (classify_row b) = 8"
  proof
    assume h: "MA20 b = None \<and> MA20_Slope_Val b = None \<and> MA60 b = None"
    with s p a show "row_sid (classify_row b) = 8"
      unfolding row_sid_classify row_scenario_classify by (simp add: flat_below_none_is_8)
  qed
  from s p a e classify_row_regular [of b]
    analyze_stock_no_exception [of download ticker start_date end_date df]
  show ?thesis by simp
qed

theorem nan_defaults_witness:
  "MA20 (example_bar (Some 100) None None None None None) = None
   \<and> row_slope (classify_row (example_bar (Some 100) None None None None None))
       = slope_label Flat
   \<and> row_position (classify_row (example_bar (Some 100) None None None None None))
       = position_label Below
   \<and> row_alignment (classify_row (example_bar (Some 100) None None None None None))
       = alignment_label NoAlignment
   \<and> row_sid (classify_row (example_bar (Some 100) None None None None None)) = 8
   \<and> analyze_stock (returns_frame (flat_bars 1)) ticker_2330
        (ymd2ord 2024 1 2) (ymd2ord 2024 1 2) \<noteq> Error_Exception"
  using nan_defaults
    [of "example_bar (Some 100) None None None None None" "returns_frame (flat_bars 1)"
        ticker_2330 "ymd2ord 2024 1 2" "ymd2ord 2024 1 2" "flat_bars 1"]
  by (simp add: example_bar_def returns_frame_def)

section \<open>Bars without lead-in history\<close>








end
